theory Spec2Isabelle
  imports Main "HOL-Library.Word"
begin

unbundle bit_operations_syntax

chapter \<open>The model\<close>

section \<open>Library functions on byte strings\<close>

text \<open>
  A Go string is a sequence of bytes and \<open>len\<close> counts bytes, so a string is a
  \<^typ>\<open>string\<close> here. The functions of the packages \<open>strings\<close> and \<open>strconv\<close>
  that the program calls are written out on bytes, but for three of them:
  \<open>strings.ToLower\<close>, \<open>strings.ToUpper\<close> and \<open>strings.TrimSpace\<close> consult the
  Unicode tables, so they are parameters of what calls them. \<open>asciiStrings\<close> is what
  they do on ASCII text (the letters \<open>A\<close>..\<open>Z\<close> and \<open>a\<close>..\<open>z\<close>, the six ASCII white-space
  bytes), and \<open>onASCII\<close> says that a library agrees with it there.
\<close>

definition byte :: "char \<Rightarrow> nat" where
  "byte c = of_char c"

record stringsPkg =
  ToLower :: "string \<Rightarrow> string"
  ToUpper :: "string \<Rightarrow> string"
  TrimSpace :: "string \<Rightarrow> string"

definition ToLowerByte :: "char \<Rightarrow> char" where
  "ToLowerByte c = (if 65 \<le> byte c \<and> byte c \<le> 90 then char_of (byte c + 32) else c)"

definition ToUpperByte :: "char \<Rightarrow> char" where
  "ToUpperByte c = (if 97 \<le> byte c \<and> byte c \<le> 122 then char_of (byte c - 32) else c)"

definition isSpace :: "char \<Rightarrow> bool" where
  "isSpace c = (byte c = 9 \<or> byte c = 10 \<or> byte c = 11 \<or> byte c = 12 \<or> byte c = 13 \<or> byte c = 32)"

definition asciiStrings :: stringsPkg where
  "asciiStrings =
     \<lparr>ToLower = map ToLowerByte,
      ToUpper = map ToUpperByte,
      TrimSpace = (\<lambda>s. rev (dropWhile isSpace (rev (dropWhile isSpace s))))\<rparr>"

definition isASCII :: "string \<Rightarrow> bool" where
  "isASCII s = list_all (\<lambda>c. byte c < 128) s"

definition onASCII :: "stringsPkg \<Rightarrow> bool" where
  "onASCII lib =
     (\<forall>s. isASCII s \<longrightarrow>
        ToLower lib s = ToLower asciiStrings s \<and>
        ToUpper lib s = ToUpper asciiStrings s \<and>
        TrimSpace lib s = TrimSpace asciiStrings s)"

text \<open>
  \<open>strings.Split(s, sep)\<close> for a separator of one byte: the pieces between the
  separators, \<open>n + 1\<close> pieces for \<open>n\<close> separators, so one empty piece for the empty string.
\<close>

fun Split :: "char \<Rightarrow> string \<Rightarrow> string list" where
  "Split sep [] = [[]]"
| "Split sep (c # cs) =
     (if c = sep then [] # Split sep cs
      else (case Split sep cs of
              [] \<Rightarrow> [[c]]
            | t # ts \<Rightarrow> (c # t) # ts))"

definition isDigit :: "char \<Rightarrow> bool" where
  "isDigit c = (48 \<le> byte c \<and> byte c \<le> 57)"

fun digitsVal :: "int \<Rightarrow> string \<Rightarrow> int" where
  "digitsVal acc [] = acc"
| "digitsVal acc (c # cs) = digitsVal (acc * 10 + (int (byte c) - 48)) cs"

text \<open>
  \<open>strconv.Atoi\<close>: an optional sign, then one or more decimal digits and nothing else;
  a value outside the 64-bit \<open>int\<close> is an error. \<open>None\<close> is the error return.
\<close>

definition Atoi :: "string \<Rightarrow> int option" where
  "Atoi s =
     (let neg = (case s of [] \<Rightarrow> False | c # _ \<Rightarrow> c = CHR ''-'');
          body = (case s of [] \<Rightarrow> [] | c # cs \<Rightarrow> if c = CHR ''+'' \<or> c = CHR ''-'' then cs else s)
      in if body = [] \<or> \<not> list_all isDigit body then None
         else (let v = (if neg then - digitsVal 0 body else digitsVal 0 body)
               in if v < - (2 ^ 63) \<or> 2 ^ 63 \<le> v then None else Some v))"

section \<open>Hotkey spec parser (\<open>internal/hotkey/hotkey_windows.go\<close>)\<close>

type_synonym uint32 = "32 word"

definition VK_NUMPAD0 :: uint32 where "VK_NUMPAD0 = 0x60"
definition VK_NUMPAD1 :: uint32 where "VK_NUMPAD1 = 0x61"
definition VK_NUMPAD2 :: uint32 where "VK_NUMPAD2 = 0x62"
definition VK_NUMPAD3 :: uint32 where "VK_NUMPAD3 = 0x63"
definition VK_NUMPAD4 :: uint32 where "VK_NUMPAD4 = 0x64"
definition VK_NUMPAD5 :: uint32 where "VK_NUMPAD5 = 0x65"
definition VK_NUMPAD6 :: uint32 where "VK_NUMPAD6 = 0x66"
definition VK_NUMPAD7 :: uint32 where "VK_NUMPAD7 = 0x67"
definition VK_NUMPAD8 :: uint32 where "VK_NUMPAD8 = 0x68"
definition VK_NUMPAD9 :: uint32 where "VK_NUMPAD9 = 0x69"
definition VK_ADD :: uint32 where "VK_ADD = 0x6B"
definition VK_SUBTRACT :: uint32 where "VK_SUBTRACT = 0x6D"

text \<open>The two errors \<open>parseHotkey\<close> builds with \<open>fmt.Errorf\<close>; the second carries the input.\<close>

datatype hotkey_error = EmptyKey | UnsupportedKeyToken string

text \<open>The \<open>switch p\<close> of the modifier loop: the bit a token adds, none in the default case.\<close>

definition modifierBit :: "string \<Rightarrow> uint32" where
  "modifierBit p =
     (if p = ''alt'' \<or> p = ''menu'' then 0x0001
      else if p = ''ctrl'' \<or> p = ''control'' then 0x0002
      else if p = ''shift'' then 0x0004
      else if p = ''win'' \<or> p = ''meta'' \<or> p = ''super'' then 0x0008
      else 0)"

fun modifierLoop :: "uint32 \<Rightarrow> string list \<Rightarrow> uint32" where
  "modifierLoop m [] = m"
| "modifierLoop m (p # ps) = modifierLoop (m OR modifierBit p) ps"

text \<open>The table \<open>named\<close> of \<open>parseHotkey\<close>.\<close>

definition named :: "(string \<times> uint32) list" where
  "named =
     [(''tab'', 0x09), (''backspace'', 0x08), (''insert'', 0x2D), (''delete'', 0x2E),
      (''home'', 0x24), (''end'', 0x23), (''pageup'', 0x21), (''pagedown'', 0x22),
      (''left'', 0x25), (''up'', 0x26), (''right'', 0x27), (''down'', 0x28)]"

definition numpadKey :: "string \<Rightarrow> uint32 option" where
  "numpadKey t =
     (if t = ''numpad0'' \<or> t = ''num0'' \<or> t = ''kp0'' then Some VK_NUMPAD0
      else if t = ''numpad1'' \<or> t = ''num1'' \<or> t = ''kp1'' then Some VK_NUMPAD1
      else if t = ''numpad2'' \<or> t = ''num2'' \<or> t = ''kp2'' then Some VK_NUMPAD2
      else if t = ''numpad3'' \<or> t = ''num3'' \<or> t = ''kp3'' then Some VK_NUMPAD3
      else if t = ''numpad4'' \<or> t = ''num4'' \<or> t = ''kp4'' then Some VK_NUMPAD4
      else if t = ''numpad5'' \<or> t = ''num5'' \<or> t = ''kp5'' then Some VK_NUMPAD5
      else if t = ''numpad6'' \<or> t = ''num6'' \<or> t = ''kp6'' then Some VK_NUMPAD6
      else if t = ''numpad7'' \<or> t = ''num7'' \<or> t = ''kp7'' then Some VK_NUMPAD7
      else if t = ''numpad8'' \<or> t = ''num8'' \<or> t = ''kp8'' then Some VK_NUMPAD8
      else if t = ''numpad9'' \<or> t = ''num9'' \<or> t = ''kp9'' then Some VK_NUMPAD9
      else if t = ''add'' \<or> t = ''plus'' \<or> t = ''kpadd'' then Some VK_ADD
      else if t = ''subtract'' \<or> t = ''minus'' \<or> t = ''kpsubtract'' then Some VK_SUBTRACT
      else None)"

text \<open>
  The function-key branch: \<open>strings.HasPrefix(keyToken, "f")\<close>, \<open>strconv.Atoi\<close> of the rest,
  and the range test \<open>n >= 1 && n <= 24\<close>.
\<close>

definition functionKey :: "string \<Rightarrow> uint32 option" where
  "functionKey t =
     (case t of
        [] \<Rightarrow> None
      | c # nStr \<Rightarrow>
          if c = CHR ''f'' then
            (case Atoi nStr of
               None \<Rightarrow> None
             | Some n \<Rightarrow> if 1 \<le> n \<and> n \<le> 24 then Some (0x70 + word_of_int (n - 1)) else None)
          else None)"

text \<open>
  The key token resolution, in the order of the source: one letter or digit, the first
  \<open>switch\<close>, the function keys, the numeric pad \<open>switch\<close>, the table \<open>named\<close>, and at
  last any token of length one. \<open>None\<close> stands for falling through to the final error.
  In the last branch \<open>strings.ToUpper(keyToken)[0]\<close> is in range, since the upper case of
  a string that is not empty is not empty.
\<close>

definition keyCode :: "stringsPkg \<Rightarrow> string \<Rightarrow> uint32 option" where
  "keyCode lib keyToken =
     (case (if length keyToken = 1
            then (let ch = hd keyToken in
                  if 97 \<le> byte ch \<and> byte ch \<le> 122
                    then Some (ucast ((of_nat (byte ch) :: 8 word) - 0x61 + 0x41))
                  else if 48 \<le> byte ch \<and> byte ch \<le> 57
                    then Some (of_nat (byte ch))
                  else None)
            else None) of
        Some v \<Rightarrow> Some v
      | None \<Rightarrow>
          if keyToken = ''esc'' \<or> keyToken = ''escape'' then Some 0x1B
          else if keyToken = ''space'' then Some 0x20
          else if keyToken = ''enter'' \<or> keyToken = ''return'' then Some 0x0D
          else (case functionKey keyToken of
                  Some v \<Rightarrow> Some v
                | None \<Rightarrow>
                    (case numpadKey keyToken of
                       Some v \<Rightarrow> Some v
                     | None \<Rightarrow>
                         (case map_of named keyToken of
                            Some v \<Rightarrow> Some v
                          | None \<Rightarrow>
                              if length keyToken = 1
                              then Some (of_nat (byte (hd (ToUpper lib keyToken))))
                              else None))))"

text \<open>The tokens of a spec: split at \<open>+\<close>, each piece lower-cased and trimmed.\<close>

definition hotkeyParts :: "stringsPkg \<Rightarrow> string \<Rightarrow> string list" where
  "hotkeyParts lib s = map (\<lambda>p. TrimSpace lib (ToLower lib p)) (Split (CHR ''+'') s)"

definition parseHotkey :: "stringsPkg \<Rightarrow> string \<Rightarrow> hotkey_error + (uint32 \<times> uint32)" where
  "parseHotkey lib s =
     (if s = [] then Inl EmptyKey
      else (let parts = hotkeyParts lib s;
                keyToken = last parts;
                modMask = (if length parts = 1 then 0 else modifierLoop 0 (butlast parts))
            in case keyCode lib keyToken of
                 Some vk \<Rightarrow> Inr (modMask, vk)
               | None \<Rightarrow> Inl (UnsupportedKeyToken s)))"


subsection \<open>The vocabulary of the parser's contract\<close>

text \<open>
  The keys the contract lists, written from its words and compared with \<open>keyCode\<close> below:
  a single letter, a digit, a function key \<open>f1\<close>..\<open>f24\<close>, a named key, a numeric-pad key
  or operator alias.
\<close>

definition functionKeyNames :: "string list" where
  "functionKeyNames =
     [''f1'', ''f2'', ''f3'', ''f4'', ''f5'', ''f6'', ''f7'', ''f8'', ''f9'', ''f10'', ''f11'', ''f12'',
      ''f13'', ''f14'', ''f15'', ''f16'', ''f17'', ''f18'', ''f19'', ''f20'', ''f21'', ''f22'', ''f23'',
      ''f24'']"

definition namedKeyNames :: "string list" where
  "namedKeyNames =
     [''esc'', ''escape'', ''enter'', ''return'', ''tab'', ''space'', ''backspace'', ''insert'',
      ''delete'', ''home'', ''end'', ''pageup'', ''pagedown'', ''left'', ''up'', ''right'', ''down'']"

definition numpadNames :: "string list" where
  "numpadNames =
     [''numpad0'', ''num0'', ''kp0'', ''numpad1'', ''num1'', ''kp1'', ''numpad2'', ''num2'', ''kp2'',
      ''numpad3'', ''num3'', ''kp3'', ''numpad4'', ''num4'', ''kp4'', ''numpad5'', ''num5'', ''kp5'',
      ''numpad6'', ''num6'', ''kp6'', ''numpad7'', ''num7'', ''kp7'', ''numpad8'', ''num8'', ''kp8'',
      ''numpad9'', ''num9'', ''kp9'', ''add'', ''plus'', ''kpadd'', ''subtract'', ''minus'',
      ''kpsubtract'']"

definition singleLetter :: "string \<Rightarrow> bool" where
  "singleLetter t = (case t of [c] \<Rightarrow> 97 \<le> byte c \<and> byte c \<le> 122 | _ \<Rightarrow> False)"

definition singleDigit :: "string \<Rightarrow> bool" where
  "singleDigit t = (case t of [c] \<Rightarrow> isDigit c | _ \<Rightarrow> False)"

definition knownKey :: "string \<Rightarrow> bool" where
  "knownKey t =
     (singleLetter t \<or> singleDigit t \<or> List.member functionKeyNames t \<or>
      List.member namedKeyNames t \<or> List.member numpadNames t)"

text \<open>
  A function key as \<open>strconv.Atoi\<close> reads its number: \<open>f\<close>, an optional plus sign, then
  decimal digits of value 1 to 24, with any number of leading zeros.
\<close>

definition paddedFunctionKey :: "string \<Rightarrow> bool" where
  "paddedFunctionKey t =
     (case t of
        [] \<Rightarrow> False
      | c # ds \<Rightarrow>
          c = CHR ''f'' \<and>
          (let body = (case ds of [] \<Rightarrow> [] | d # ds' \<Rightarrow> if d = CHR ''+'' then ds' else ds)
           in body \<noteq> [] \<and> list_all isDigit body \<and>
              1 \<le> digitsVal 0 body \<and> digitsVal 0 body \<le> 24))"

definition recognisedModifier :: "string \<Rightarrow> bool" where
  "recognisedModifier p =
     List.member [''alt'', ''menu'', ''ctrl'', ''control'', ''shift'', ''win'', ''meta'', ''super''] p"

text \<open>The final token of a spec, as \<open>parseHotkey\<close> reads it.\<close>

definition keyTokenOf :: "stringsPkg \<Rightarrow> string \<Rightarrow> string" where
  "keyTokenOf lib s = last (hotkeyParts lib s)"

section \<open>JSON text extraction (\<open>internal/jsonpath/jsonpath.go\<close>)\<close>

text \<open>
  A Go call either returns or panics; \<open>Panic\<close> is the run-time panic of an index or slice
  expression out of range, so that "never panics" is a statement about the model.
\<close>

datatype 'a go = Panic | Return 'a

text \<open>
  What \<open>json.Unmarshal\<close> stores into an \<open>interface{}\<close>: \<open>nil\<close>, \<open>bool\<close>, \<open>float64\<close>,
  \<open>string\<close>, \<open>[]interface{}\<close> and \<open>map[string]interface{}\<close>. The type \<open>'n\<close> stands for
  \<open>float64\<close>. An object is its list of entries; \<open>m[key]\<close> is \<^const>\<open>map_of\<close>.
\<close>

datatype 'n json =
    JNull
  | JBool bool
  | JNumber 'n
  | JString string
  | JArray "'n json list"
  | JObject "(string \<times> 'n json) list"

datatype path_error =
    EmptyToken
  | InvalidIndexSyntax string
  | MissingClosingBracket string
  | EmptyIndex string
  | InvalidIndex string string

text \<open>\<open>strings.Index(s, c)\<close> for a one-byte \<open>c\<close>: the first position of \<open>c\<close>, or \<open>-1\<close>.\<close>

fun Index :: "string \<Rightarrow> char \<Rightarrow> int" where
  "Index [] c = - 1"
| "Index (x # xs) c =
     (if x = c then 0 else (let r = Index xs c in if r = - 1 then - 1 else r + 1))"

text \<open>The slice expression \<open>s[lo:hi]\<close> and the index expression \<open>a[i]\<close>, with Go's bounds checks.\<close>

definition slice :: "'a list \<Rightarrow> int \<Rightarrow> int \<Rightarrow> 'a list go" where
  "slice s lo hi =
     (if 0 \<le> lo \<and> lo \<le> hi \<and> hi \<le> int (length s)
      then Return (take (nat (hi - lo)) (drop (nat lo) s)) else Panic)"

definition at :: "'a list \<Rightarrow> int \<Rightarrow> 'a go" where
  "at a i = (if 0 \<le> i \<and> i < int (length a) then Return (a ! nat i) else Panic)"

definition HasPrefix :: "string \<Rightarrow> string \<Rightarrow> bool" where
  "HasPrefix s p = (take (length p) s = p)"

lemma Index_range: "- 1 \<le> Index s c \<and> Index s c < int (length s)"
  by (induction s) (auto simp: Let_def)

text \<open>The loop \<open>for len(rest) > 0\<close> of \<open>ParseKeyAndIndexes\<close>.\<close>

function parseIndexes :: "string \<Rightarrow> string \<Rightarrow> int list \<Rightarrow> (path_error + int list) go" where
  "parseIndexes token rest idxs =
     (if length rest > 0 then
        (if \<not> HasPrefix rest ''['' then Return (Inl (InvalidIndexSyntax token))
         else (let closePos = Index rest (CHR '']'') in
           if closePos = - 1 then Return (Inl (MissingClosingBracket token))
           else (case slice rest 1 closePos of
                   Panic \<Rightarrow> Panic
                 | Return numStr \<Rightarrow>
                     if numStr = [] then Return (Inl (EmptyIndex token))
                     else (case Atoi numStr of
                             None \<Rightarrow> Return (Inl (InvalidIndex numStr token))
                           | Some n \<Rightarrow>
                               (case slice rest (closePos + 1) (int (length rest)) of
                                  Panic \<Rightarrow> Panic
                                | Return rest' \<Rightarrow> parseIndexes token rest' (idxs @ [n]))))))
      else Return (Inr idxs))"
  by pat_completeness auto
termination
proof (relation "measure (\<lambda>(token, rest, idxs). length rest)")
  show "wf (measure (\<lambda>(token, rest, idxs). length rest))" by simp
next
  fix token rest :: string and idxs :: "int list" and x x2 x2a x2b
  assume "0 < length rest" and "x = Index rest CHR '']''" and "x \<noteq> - 1"
    and "slice rest (x + 1) (int (length rest)) = Return x2b"
  moreover have "- 1 \<le> Index rest CHR '']''" using Index_range by blast
  ultimately show "((token, x2b, idxs @ [x2a]), token, rest, idxs)
       \<in> measure (\<lambda>(token, rest, idxs). length rest)"
    by (auto simp: slice_def split: if_splits)
qed

declare parseIndexes.simps [simp del]

definition ParseKeyAndIndexes :: "string \<Rightarrow> (path_error + string \<times> int list) go" where
  "ParseKeyAndIndexes token =
     (if token = [] then Return (Inl EmptyToken)
      else (let br = Index token (CHR ''['') in
        if br = - 1 then Return (Inr (token, []))
        else (case slice token 0 br of
                Panic \<Rightarrow> Panic
              | Return key \<Rightarrow>
                  (case slice token br (int (length token)) of
                     Panic \<Rightarrow> Panic
                   | Return rest \<Rightarrow>
                       (case parseIndexes token rest [] of
                          Panic \<Rightarrow> Panic
                        | Return (Inl e) \<Rightarrow> Return (Inl e)
                        | Return (Inr idxs) \<Rightarrow> Return (Inr (key, idxs)))))))"

text \<open>The loop \<open>for _, idx := range idxs\<close> of \<open>ExtractByPath\<close>; \<open>None\<close> is \<open>return "", false\<close>.\<close>

fun indexLoop :: "'n json \<Rightarrow> int list \<Rightarrow> 'n json option go" where
  "indexLoop cur [] = Return (Some cur)"
| "indexLoop cur (idx # idxs) =
     (case cur of
        JArray arr \<Rightarrow>
          if idx < 0 \<or> idx \<ge> int (length arr) then Return None
          else (case at arr idx of Panic \<Rightarrow> Panic | Return v \<Rightarrow> indexLoop v idxs)
      | _ \<Rightarrow> Return None)"

text \<open>The loop \<open>for _, part := range parts\<close>.\<close>

fun partLoop :: "'n json \<Rightarrow> string list \<Rightarrow> 'n json option go" where
  "partLoop cur [] = Return (Some cur)"
| "partLoop cur (part # parts) =
     (case ParseKeyAndIndexes part of
        Panic \<Rightarrow> Panic
      | Return (Inl err) \<Rightarrow> Return None
      | Return (Inr (key, idxs)) \<Rightarrow>
          (case (if key \<noteq> [] then (case cur of JObject m \<Rightarrow> map_of m key | _ \<Rightarrow> None)
                 else Some cur) of
             None \<Rightarrow> Return None
           | Some next \<Rightarrow>
               (case indexLoop next idxs of
                  Panic \<Rightarrow> Panic
                | Return None \<Rightarrow> Return None
                | Return (Some cur') \<Rightarrow> partLoop cur' parts)))"

text \<open>
  The final type switch. \<open>formatFloat\<close> stands for the two \<open>fmt.Sprintf\<close> calls on a
  \<open>float64\<close> (\<open>%d\<close> of the integer when the value is integral, \<open>%v\<close> otherwise).
\<close>

definition leafText :: "('n \<Rightarrow> string) \<Rightarrow> 'n json \<Rightarrow> string \<times> bool" where
  "leafText formatFloat cur =
     (case cur of
        JString v \<Rightarrow> (v, True)
      | JNumber v \<Rightarrow> (formatFloat v, True)
      | JBool v \<Rightarrow> (if v then ''true'' else ''false'', True)
      | _ \<Rightarrow> ([], False))"

definition ExtractByPath :: "('n \<Rightarrow> string) \<Rightarrow> 'n json \<Rightarrow> string \<Rightarrow> (string \<times> bool) go" where
  "ExtractByPath formatFloat root path =
     (if path = [] then Return ([], False)
      else (case partLoop root (Split (CHR ''.'') path) of
              Panic \<Rightarrow> Panic
            | Return None \<Rightarrow> Return ([], False)
            | Return (Some cur) \<Rightarrow> Return (leafText formatFloat cur)))"

text \<open>The loop \<open>for _, val := range m\<close>, in the order of the entries.\<close>

fun firstString :: "(string \<times> 'n json) list \<Rightarrow> string option" where
  "firstString [] = None"
| "firstString ((k, val) # m) =
     (case val of
        JString s \<Rightarrow> if s \<noteq> [] then Some s else firstString m
      | _ \<Rightarrow> firstString m)"

text \<open>
  \<open>Unmarshal\<close> stands for \<open>json.Unmarshal\<close> into an \<open>interface{}\<close>: \<open>None\<close> when it returns
  an error, the parsed value otherwise.
\<close>

definition ExtractTextFromResponse ::
  "(string \<Rightarrow> 'n json option) \<Rightarrow> ('n \<Rightarrow> string) \<Rightarrow> string \<Rightarrow> string \<Rightarrow> string go" where
  "ExtractTextFromResponse Unmarshal formatFloat body textPath =
     (case Unmarshal body of
        None \<Rightarrow> Return []
      | Some root \<Rightarrow>
          (case (if textPath \<noteq> [] then ExtractByPath formatFloat root textPath
                 else Return ([], False)) of
             Panic \<Rightarrow> Panic
           | Return (v, ok) \<Rightarrow>
               if textPath \<noteq> [] \<and> ok then Return v
               else (case root of
                       JObject m \<Rightarrow>
                         (case (case map_of m ''text'' of
                                  Some (JString s) \<Rightarrow> Some s
                                | Some (JNumber s) \<Rightarrow> Some (formatFloat s)
                                | Some (JBool s) \<Rightarrow> Some (if s then ''true'' else ''false'')
                                | _ \<Rightarrow> None) of
                            Some s \<Rightarrow> Return s
                          | None \<Rightarrow>
                              (case firstString m of Some s \<Rightarrow> Return s | None \<Rightarrow> Return []))
                     | _ \<Rightarrow> Return [])))"

subsection \<open>The contract of the extraction, from its words\<close>

text \<open>
  A path is a sequence of steps, a key or an index. A segment that does not parse is
  malformed; a key step needs an object that has the key; an index step needs an array
  and an index within it; the value reached must be a string, a number or a boolean.
\<close>

datatype step = Key string | Idx int

fun follow :: "'n json \<Rightarrow> step \<Rightarrow> 'n json option" where
  "follow (JObject m) (Key k) = map_of m k"
| "follow (JArray arr) (Idx i) = (if 0 \<le> i \<and> i < int (length arr) then Some (arr ! nat i) else None)"
| "follow _ _ = None"

fun followAll :: "'n json \<Rightarrow> step list \<Rightarrow> 'n json option" where
  "followAll cur [] = Some cur"
| "followAll cur (s # ss) = (case follow cur s of None \<Rightarrow> None | Some c \<Rightarrow> followAll c ss)"

definition segmentSteps :: "string \<Rightarrow> step list option" where
  "segmentSteps part =
     (case ParseKeyAndIndexes part of
        Return (Inr (key, idxs)) \<Rightarrow> Some ((if key = [] then [] else [Key key]) @ map Idx idxs)
      | _ \<Rightarrow> None)"

fun pathSteps :: "string list \<Rightarrow> step list option" where
  "pathSteps [] = Some []"
| "pathSteps (part # parts) =
     (case segmentSteps part of
        None \<Rightarrow> None
      | Some ss \<Rightarrow> (case pathSteps parts of None \<Rightarrow> None | Some ss' \<Rightarrow> Some (ss @ ss')))"

definition primitiveText :: "('n \<Rightarrow> string) \<Rightarrow> 'n json \<Rightarrow> string option" where
  "primitiveText formatFloat v =
     (case v of
        JString s \<Rightarrow> Some s
      | JNumber x \<Rightarrow> Some (formatFloat x)
      | JBool b \<Rightarrow> Some (if b then ''true'' else ''false'')
      | _ \<Rightarrow> None)"

definition lookupPath :: "('n \<Rightarrow> string) \<Rightarrow> 'n json \<Rightarrow> string \<Rightarrow> string option" where
  "lookupPath formatFloat root path =
     (if path = [] then None
      else (case pathSteps (Split (CHR ''.'') path) of
              None \<Rightarrow> None
            | Some ss \<Rightarrow>
                (case followAll root ss of
                   None \<Rightarrow> None
                 | Some leaf \<Rightarrow> primitiveText formatFloat leaf)))"

text \<open>The document of \<open>TestExtractByPath\<close>, the package's test.\<close>

definition testRoot :: "nat json" where
  "testRoot =
     JObject
       [(''text'', JString ''hello''),
        (''data'', JObject [(''items'', JArray [JObject [(''value'', JString ''a'')],
                                               JObject [(''value'', JString ''b'')]])]),
        (''results'', JArray [JObject [(''alternatives'',
                                        JArray [JObject [(''transcript'', JString ''ok'')]])]])]"

section \<open>The low-level keyboard hook (\<open>startLowLevelHook\<close>)\<close>

type_synonym uintptr = "64 word"

definition WM_KEYDOWN :: uint32 where "WM_KEYDOWN = 0x0100"
definition WM_KEYUP :: uint32 where "WM_KEYUP = 0x0101"
definition WM_SYSKEYDOWN :: uint32 where "WM_SYSKEYDOWN = 0x0104"
definition WM_SYSKEYUP :: uint32 where "WM_SYSKEYUP = 0x0105"
definition LLKHF_INJECTED :: uint32 where "LLKHF_INJECTED = 0x10"
definition VK_SHIFT :: uint32 where "VK_SHIFT = 0x10"
definition VK_CONTROL :: uint32 where "VK_CONTROL = 0x11"
definition VK_MENU :: uint32 where "VK_MENU = 0x12"
definition VK_LWIN :: uint32 where "VK_LWIN = 0x5B"
definition VK_RWIN :: uint32 where "VK_RWIN = 0x5C"

record KBDLLHOOKSTRUCT =
  vkCode :: uint32
  scanCode :: uint32
  flags :: uint32
  time :: uint32

record candidate =
  cand_id :: int
  cand_mod :: uint32

text \<open>
  One call of the hook: the arguments \<open>nCode\<close> and \<open>wParam\<close>, the structure \<open>lParam\<close>
  points to, and what \<open>GetAsyncKeyState\<close> answers for each virtual key during the call.
\<close>

record hook_call =
  nCode :: uintptr
  wParam :: uintptr
  lParam :: KBDLLHOOKSTRUCT
  GetAsyncKeyState :: "uint32 \<Rightarrow> uintptr"

text \<open>
  What a call does with the event: \<open>CallNext\<close> hands it to \<open>CallNextHookEx\<close> with the
  arguments unchanged and returns its answer, \<open>Swallow\<close> returns \<open>1\<close>.
\<close>

datatype disposition = CallNext | Swallow

definition modsSatisfied :: "(uint32 \<Rightarrow> uintptr) \<Rightarrow> uint32 \<Rightarrow> bool" where
  "modsSatisfied keyState required =
     (if required = 0 then True
      else if required AND 0x0002 \<noteq> 0 \<and> keyState VK_CONTROL AND 0x8000 = 0 then False
      else if required AND 0x0001 \<noteq> 0 \<and> keyState VK_MENU AND 0x8000 = 0 then False
      else if required AND 0x0004 \<noteq> 0 \<and> keyState VK_SHIFT AND 0x8000 = 0 then False
      else if required AND 0x0008 \<noteq> 0 \<and>
              keyState VK_LWIN AND 0x8000 = 0 \<and> keyState VK_RWIN AND 0x8000 = 0 then False
      else True)"

text \<open>The loop \<open>for _, c := range cands\<close>: the first candidate whose modifiers are down.\<close>

fun firstSatisfied :: "(uint32 \<Rightarrow> uintptr) \<Rightarrow> candidate list \<Rightarrow> candidate option" where
  "firstSatisfied keyState [] = None"
| "firstSatisfied keyState (c # cands) =
     (if modsSatisfied keyState (cand_mod c) then Some c else firstSatisfied keyState cands)"

text \<open>The map \<open>swallowed\<close>; reading a key that is absent gives \<open>false\<close>.\<close>

type_synonym swallowed = "uint32 \<rightharpoonup> bool"

definition isSwallowed :: "swallowed \<Rightarrow> uint32 \<Rightarrow> bool" where
  "isSwallowed swallowed vk = (case swallowed vk of None \<Rightarrow> False | Some b \<Rightarrow> b)"

text \<open>
  The hook callback. It returns what happens to the event, the command id handed to
  \<open>go handler(c.id)\<close> if any, and the map \<open>swallowed\<close> after the call.
\<close>

definition callback ::
  "(uint32 \<rightharpoonup> candidate list) \<Rightarrow> swallowed \<Rightarrow> hook_call \<Rightarrow> disposition \<times> int option \<times> swallowed" where
  "callback lookup swallowed ev =
     (if sint (ucast (nCode ev) :: 32 word) < 0 then (CallNext, None, swallowed)
      else
        (let msg = (ucast (wParam ev) :: uint32);
             vk = vkCode (lParam ev);
             flags = flags (lParam ev)
         in if flags AND LLKHF_INJECTED \<noteq> 0 then (CallNext, None, swallowed)
            else
              (case (if msg = WM_KEYDOWN \<or> msg = WM_SYSKEYDOWN
                     then (case lookup vk of
                             None \<Rightarrow> None
                           | Some cands \<Rightarrow> firstSatisfied (GetAsyncKeyState ev) cands)
                     else None) of
                 Some c \<Rightarrow> (Swallow, Some (cand_id c), swallowed(vk \<mapsto> True))
               | None \<Rightarrow>
                   if (msg = WM_KEYUP \<or> msg = WM_SYSKEYUP) \<and> isSwallowed swallowed vk
                   then (Swallow, None, swallowed(vk := None))
                   else (CallNext, None, swallowed))))"

text \<open>The hook over a sequence of calls: the outcome of each call, and the final map.\<close>

fun hookRun ::
  "(uint32 \<rightharpoonup> candidate list) \<Rightarrow> swallowed \<Rightarrow> hook_call list \<Rightarrow>
     (disposition \<times> int option) list \<times> swallowed" where
  "hookRun lookup swallowed [] = ([], swallowed)"
| "hookRun lookup swallowed (ev # evs) =
     (case callback lookup swallowed ev of
        (d, cmd, swallowed') \<Rightarrow>
          (case hookRun lookup swallowed' evs of
             (out, final) \<Rightarrow> ((d, cmd) # out, final)))"

text \<open>
  The table \<open>lookup\<close>, built from the three specs in the order start, pause, cancel; the
  first spec that does not parse ends the installation with its error.
\<close>

fun buildLookup ::
  "stringsPkg \<Rightarrow> (uint32 \<rightharpoonup> candidate list) \<Rightarrow> (int \<times> string) list \<Rightarrow>
     hotkey_error + (uint32 \<rightharpoonup> candidate list)" where
  "buildLookup lib lookup [] = Inr lookup"
| "buildLookup lib lookup ((i, spec) # specs) =
     (case parseHotkey lib spec of
        Inl err \<Rightarrow> Inl err
      | Inr (modMask, vk) \<Rightarrow>
          buildLookup lib
            (lookup(vk \<mapsto> (case lookup vk of None \<Rightarrow> [] | Some cs \<Rightarrow> cs) @
                              [\<lparr>cand_id = i, cand_mod = modMask\<rparr>]))
            specs)"

definition hookLookup ::
  "stringsPkg \<Rightarrow> string \<Rightarrow> string \<Rightarrow> string \<Rightarrow>
     hotkey_error + (uint32 \<rightharpoonup> candidate list)" where
  "hookLookup lib startKey pauseKey cancelKey =
     buildLookup lib Map.empty [(1, startKey), (2, pauseKey), (3, cancelKey)]"

subsection \<open>The vocabulary of the hook's contract\<close>

definition injected :: "hook_call \<Rightarrow> bool" where
  "injected ev = (flags (lParam ev) AND LLKHF_INJECTED \<noteq> 0)"

definition keyUp :: "hook_call \<Rightarrow> bool" where
  "keyUp ev = ((ucast (wParam ev) :: uint32) = WM_KEYUP \<or> (ucast (wParam ev) :: uint32) = WM_SYSKEYUP)"

text \<open>A call the hook looks at: \<open>nCode\<close> is not negative and the event is not injected.\<close>

definition handled :: "hook_call \<Rightarrow> bool" where
  "handled ev = (\<not> sint (ucast (nCode ev) :: 32 word) < 0 \<and> \<not> injected ev)"

text \<open>Sample calls: a key event for \<open>vk\<close> with message \<open>msg\<close> and flags \<open>fl\<close>, while the keys of \<open>held\<close> are down.\<close>

definition keyEvent :: "uint32 \<Rightarrow> uint32 \<Rightarrow> uint32 \<Rightarrow> uint32 list \<Rightarrow> hook_call" where
  "keyEvent msg vk fl held =
     \<lparr>nCode = 0, wParam = ucast msg,
      lParam = \<lparr>vkCode = vk, scanCode = 0, flags = fl, time = 0\<rparr>,
      GetAsyncKeyState = (\<lambda>k. if List.member held k then 0x8000 else 0)\<rparr>"

text \<open>
  The entry that the spec \<open>alt+q\<close> of the start key puts into the table: key \<open>Q\<close>
  (\<open>0x51\<close>), command 1, the Alt bit.
\<close>

definition altQ :: "uint32 \<rightharpoonup> candidate list" where
  "altQ = [0x51 \<mapsto> [\<lparr>cand_id = 1, cand_mod = 0x0001\<rparr>]]"

section \<open>The recorder (package \<open>record\<close>)\<close>

datatype State = StateIdle | StateRecording | StatePaused | StateStopping | StateCanceled

text \<open>\<open>Err\<close> holds the message of the error, without the wrapped cause.\<close>

record Result =
  WavPath :: string
  Canceled :: bool
  Err :: "string option"

definition emptyResult :: Result where
  "emptyResult = \<lparr>WavPath = [], Canceled = False, Err = None\<rparr>"

text \<open>
  The fields of \<open>Recorder\<close> that the lock protects or the worker uses. \<open>stopCtx\<close> is
  whether the context is done, that is whether \<open>stopCancel\<close> has been called; the context
  handed to \<open>Start\<close> is \<open>context.Background()\<close>, which is never done by itself. \<open>doneCh\<close>
  is the content of the channel \<open>done\<close>, which has one slot.
\<close>

record Recorder =
  state :: State
  tempDir :: string
  wavPath :: string
  stopCtx :: bool
  doneCh :: "Result option"

text \<open>
  The points of \<open>recordLoop\<close> between which another goroutine can take the lock:
  the set-up before the loop, the three tests at the head of the loop
  (\<open>isCanceled\<close>, \<open>isPaused\<close>, \<open>stopCtx.Done()\<close>), the read and write of one buffer,
  the label \<open>done\<close>, and the point after \<open>finish\<close>, where the goroutine has yet to run
  the deferred \<open>portaudio.Terminate\<close> and to return.
\<close>

datatype pc =
  Setup | LoopCanceled | LoopPaused | LoopStop | LoopRead | AtDone | Returning | Exited

text \<open>
  A goroutine running \<open>recordLoop\<close>: where it is, its local \<open>wavPath\<close>, and what it holds
  open: PortAudio initialised (with \<open>Terminate\<close> deferred), the stream opened and
  started, the file and the encoder open.
\<close>

record worker =
  pc :: pc
  localWavPath :: string
  paInit :: bool
  streamOpen :: bool
  streamStarted :: bool
  fileOpen :: bool
  encOpen :: bool

text \<open>
  What the environment answers during one step of a worker: the UUID and the working
  directory for the file name, and whether each device, file and encoder call succeeds.
\<close>

record io =
  uuid :: string
  cwd :: string
  initOk :: bool
  openOk :: bool
  startOk :: bool
  createOk :: bool
  readOk :: bool
  writeOk :: bool
  closeOk :: bool

text \<open>The recorder together with the goroutines it has started and the files on disk.\<close>

record system = Recorder +
  workers :: "worker list"
  files :: "string set"

definition New :: "string \<Rightarrow> system" where
  "New dir = \<lparr>state = StateIdle, tempDir = dir, wavPath = [], stopCtx = False, doneCh = None,
              workers = [], files = {}\<rparr>"

definition spawned :: worker where
  "spawned = \<lparr>pc = Setup, localWavPath = [], paInit = False, streamOpen = False, streamStarted = False,
              fileOpen = False, encOpen = False\<rparr>"

text \<open>\<open>Start\<close>: the error, if any, and the system after the call.\<close>

definition Start :: "system \<Rightarrow> string option \<times> system" where
  "Start r =
     (if state r \<noteq> StateIdle then (Some ''recorder not idle'', r)
      else (None, r\<lparr>state := StateRecording, doneCh := None, stopCtx := False,
                     workers := workers r @ [spawned]\<rparr>))"

definition TogglePause :: "system \<Rightarrow> string option \<times> system" where
  "TogglePause r =
     (if state r \<noteq> StateRecording \<and> state r \<noteq> StatePaused then (Some ''recorder not running'', r)
      else if state r = StatePaused then (None, r\<lparr>state := StateRecording\<rparr>)
      else (None, r\<lparr>state := StatePaused\<rparr>))"

definition isPaused :: "system \<Rightarrow> bool" where
  "isPaused r = (state r = StatePaused)"

definition isCanceled :: "system \<Rightarrow> bool" where
  "isCanceled r = (state r = StateCanceled)"

text \<open>
  \<open>finish\<close>: under the lock the state goes back to idle, then the result goes into the
  channel. The channel has one slot and \<open>Start\<close> makes a new one for every session, so
  the send does not wait; the state change and the send are one step here.
\<close>

definition finish :: "Result \<Rightarrow> system \<Rightarrow> system" where
  "finish res r = r\<lparr>state := StateIdle, doneCh := Some res\<rparr>"

text \<open>
  \<open>filepath.Join\<close> of a directory and a file name, with the separator of Windows. The
  name is built from the first 16 hexadecimal digits of a UUID, whose text has 36 bytes.
\<close>

definition Join :: "string \<Rightarrow> string \<Rightarrow> string" where
  "Join dir base = (if dir = [] then base else dir @ [CHR 0x5C] @ base)"

definition generateTempWav :: "io \<Rightarrow> system \<Rightarrow> string" where
  "generateTempWav e r =
     (let ident = take 16 (filter (\<lambda>c. c \<noteq> CHR ''-'') (uuid e));
          base = ''RecordTemp_'' @ ident @ ''.wav'';
          dir = (if tempDir r = [] then cwd e else tempDir r)
      in Join dir base)"

text \<open>
  One step of \<open>recordLoop\<close>, from one point to the next. A step that ends a path does
  the teardown of that path and calls \<open>finish\<close>; the goroutine is then at \<open>Returning\<close>,
  and its next step runs \<open>portaudio.Terminate\<close>, if \<open>Initialize\<close> had succeeded and so
  deferred it, and returns. A message printed under \<open>RECORD_DEBUG\<close> and the two sleeps
  change nothing here.
\<close>

definition recordLoop :: "io \<Rightarrow> worker \<Rightarrow> system \<Rightarrow> worker \<times> system" where
  "recordLoop e w r =
     (case pc w of
        Setup \<Rightarrow>
          (let wav = generateTempWav e r;
               r1 = r\<lparr>wavPath := wav\<rparr>;
               w1 = w\<lparr>localWavPath := wav\<rparr>
           in if \<not> initOk e then
                (w1\<lparr>pc := Returning\<rparr>,
                 finish \<lparr>WavPath = wav, Canceled = False, Err = Some ''portaudio init failed''\<rparr> r1)
              else if \<not> openOk e then
                (w1\<lparr>pc := Returning, paInit := True\<rparr>,
                 finish \<lparr>WavPath = wav, Canceled = False, Err = Some ''open stream failed''\<rparr> r1)
              else if \<not> startOk e then
                (w1\<lparr>pc := Returning, paInit := True, streamOpen := False\<rparr>,
                 finish \<lparr>WavPath = wav, Canceled = False, Err = Some ''start stream failed''\<rparr> r1)
              else if \<not> createOk e then
                (w1\<lparr>pc := Returning, paInit := True, streamOpen := False, streamStarted := False\<rparr>,
                 finish \<lparr>WavPath = wav, Canceled = False, Err = Some ''create wav failed''\<rparr> r1)
              else
                (w1\<lparr>pc := LoopCanceled, paInit := True, streamOpen := True, streamStarted := True,
                    fileOpen := True, encOpen := True\<rparr>,
                 r1\<lparr>files := insert wav (files r1)\<rparr>))
      | LoopCanceled \<Rightarrow>
          (if isCanceled r then (w\<lparr>pc := AtDone\<rparr>, r) else (w\<lparr>pc := LoopPaused\<rparr>, r))
      | LoopPaused \<Rightarrow>
          (if isPaused r then (w\<lparr>pc := LoopCanceled\<rparr>, r) else (w\<lparr>pc := LoopStop\<rparr>, r))
      | LoopStop \<Rightarrow>
          (if stopCtx r then (w\<lparr>pc := AtDone\<rparr>, r) else (w\<lparr>pc := LoopRead\<rparr>, r))
      | LoopRead \<Rightarrow>
          (if \<not> readOk e then (w\<lparr>pc := LoopCanceled\<rparr>, r)
           else if \<not> writeOk e then
             (w\<lparr>pc := Returning, encOpen := False, fileOpen := False, streamStarted := False,
                streamOpen := False\<rparr>,
              finish \<lparr>WavPath = localWavPath w, Canceled = False, Err = Some ''wav write failed''\<rparr>
                (r\<lparr>files := files r - {localWavPath w}\<rparr>))
           else (w\<lparr>pc := LoopCanceled\<rparr>, r))
      | AtDone \<Rightarrow>
          (let w1 = w\<lparr>streamStarted := False, streamOpen := False\<rparr>
           in if isCanceled r then
                (w1\<lparr>pc := Returning, encOpen := False, fileOpen := False\<rparr>,
                 finish \<lparr>WavPath = [], Canceled = True, Err = None\<rparr>
                   (r\<lparr>files := files r - {localWavPath w}\<rparr>))
              else if \<not> closeOk e then
                (w1\<lparr>pc := Returning, encOpen := False, fileOpen := False\<rparr>,
                 finish \<lparr>WavPath = localWavPath w, Canceled = False, Err = Some ''wav close failed''\<rparr>
                   (r\<lparr>files := files r - {localWavPath w}\<rparr>))
              else
                (w1\<lparr>pc := Returning, encOpen := False, fileOpen := False\<rparr>,
                 finish \<lparr>WavPath = localWavPath w, Canceled = False, Err = None\<rparr> r))
      | Returning \<Rightarrow> (w\<lparr>pc := Exited, paInit := False\<rparr>, r)
      | Exited \<Rightarrow> (w, r))"

text \<open>The scheduler lets the goroutine number \<open>i\<close> take one step.\<close>

definition workerStep :: "nat \<Rightarrow> io \<Rightarrow> system \<Rightarrow> system" where
  "workerStep i e r =
     (if i < length (workers r)
      then (case recordLoop e (workers r ! i) r of
              (w', r') \<Rightarrow> r'\<lparr>workers := (workers r')[i := w']\<rparr>)
      else r)"

text \<open>
  The receive \<open><-done\<close> of \<open>Stop\<close> and \<open>Cancel\<close>: the caller waits while the goroutines
  run as the schedule says, and takes the result as soon as the channel holds one.
  \<open>None\<close> means that the schedule ended with the caller still waiting. While the caller
  waits the state is stopping or canceled, in which every other call is rejected, so
  only the goroutines move.
\<close>

fun await :: "(nat \<times> io) list \<Rightarrow> system \<Rightarrow> Result option \<times> system" where
  "await [] r =
     (case doneCh r of
        Some res \<Rightarrow> (Some res, r\<lparr>doneCh := None\<rparr>)
      | None \<Rightarrow> (None, r))"
| "await ((i, e) # sched) r =
     (case doneCh r of
        Some res \<Rightarrow> (Some res, r\<lparr>doneCh := None\<rparr>)
      | None \<Rightarrow> await sched (workerStep i e r))"

text \<open>
  \<open>Stop\<close> and \<open>Cancel\<close>: the pair \<open>(res, res.Err)\<close> they return, if they return within the
  schedule, and the system after the call.
\<close>

definition Stop :: "(nat \<times> io) list \<Rightarrow> system \<Rightarrow> (Result \<times> string option) option \<times> system" where
  "Stop sched r =
     (if state r \<noteq> StateRecording \<and> state r \<noteq> StatePaused
      then (Some (emptyResult, Some ''recorder not running''), r)
      else (case await sched (r\<lparr>state := StateStopping, stopCtx := True\<rparr>) of
              (None, r') \<Rightarrow> (None, r')
            | (Some res, r') \<Rightarrow> (Some (res, Err res), r')))"

definition Cancel :: "(nat \<times> io) list \<Rightarrow> system \<Rightarrow> (Result \<times> string option) option \<times> system" where
  "Cancel sched r =
     (if state r \<noteq> StateRecording \<and> state r \<noteq> StatePaused
      then (Some (emptyResult, Some ''recorder not running''), r)
      else (case await sched (r\<lparr>state := StateCanceled, stopCtx := True\<rparr>) of
              (None, r') \<Rightarrow> (None, r')
            | (Some res, r') \<Rightarrow> (Some (res, Err res), r')))"

subsection \<open>Sequences of commands\<close>








text \<open>Environments for examples: every call succeeds, or one of them fails.\<close>

definition allOk :: io where
  "allOk = \<lparr>uuid = ''0a1b2c3d-4e5f-4a6b-8c7d-9e0f1a2b3c4d'', cwd = ''C:'',
            initOk = True, openOk = True, startOk = True, createOk = True,
            readOk = True, writeOk = True, closeOk = True\<rparr>"


definition openFails :: io where
  "openFails = allOk\<lparr>openOk := False\<rparr>"



subsection \<open>What holds of every recorder made by \<open>New\<close>\<close>




chapter \<open>Properties\<close>

section \<open>The hotkey spec parser\<close>

lemma Split_nonempty: "Split sep s \<noteq> []"
  by (cases s) (auto split: list.splits)

lemma Split_pieces: "t \<in> set (Split sep s) \<Longrightarrow> set t \<subseteq> set s"
proof (induction s arbitrary: t)
  case Nil
  then show ?case by simp
next
  case (Cons c cs)
  show ?case
  proof (cases "c = sep")
    case True
    then show ?thesis using Cons by auto
  next
    case False
    obtain p ps where ps: "Split sep cs = p # ps"
      using Split_nonempty[of sep cs] by (cases "Split sep cs") auto
    then have "t = c # p \<or> t \<in> set ps" using Cons.prems False by simp
    moreover have "set p \<subseteq> set cs" using Cons.IH[of p] ps by simp
    moreover have "t \<in> set ps \<Longrightarrow> set t \<subseteq> set cs" using Cons.IH[of t] ps by simp
    ultimately show ?thesis by auto
  qed
qed

lemma hotkeyParts_nonempty: "hotkeyParts lib s \<noteq> []"
  by (simp add: hotkeyParts_def Split_nonempty)

subsection \<open>On ASCII text the library is \<open>asciiStrings\<close>\<close>

lemma isASCII_subset: "isASCII s \<Longrightarrow> set t \<subseteq> set s \<Longrightarrow> isASCII t"
  by (auto simp: isASCII_def list_all_iff)

lemma byte_ToLowerByte:
  "byte (ToLowerByte c) = (if 65 \<le> byte c \<and> byte c \<le> 90 then byte c + 32 else byte c)"
  by (simp add: ToLowerByte_def byte_def)

lemma isASCII_ToLower: "isASCII s \<Longrightarrow> isASCII (ToLower asciiStrings s)"
  by (auto simp: isASCII_def list_all_iff asciiStrings_def byte_ToLowerByte)

lemma TrimSpace_subset: "set (TrimSpace asciiStrings t) \<subseteq> set t"
proof -
  have "set (dropWhile isSpace (rev (dropWhile isSpace t))) \<subseteq> set (rev (dropWhile isSpace t))"
    by (auto dest: set_dropWhileD)
  also have "\<dots> \<subseteq> set t" by (auto dest: set_dropWhileD)
  finally show ?thesis by (simp add: asciiStrings_def)
qed

lemma hotkeyParts_onASCII:
  assumes "onASCII lib" and "isASCII s"
  shows "hotkeyParts lib s = hotkeyParts asciiStrings s"
    and "\<forall>t \<in> set (hotkeyParts asciiStrings s). isASCII t"
proof -
  have piece: "isASCII p" if "p \<in> set (Split (CHR ''+'') s)" for p
    using that assms(2) Split_pieces isASCII_subset by blast
  have "TrimSpace lib (ToLower lib p) = TrimSpace asciiStrings (ToLower asciiStrings p)"
    if "p \<in> set (Split (CHR ''+'') s)" for p
    using assms(1) piece[OF that] isASCII_ToLower[OF piece[OF that]]
    unfolding onASCII_def by simp
  then show "hotkeyParts lib s = hotkeyParts asciiStrings s"
    by (simp add: hotkeyParts_def)
  show "\<forall>t \<in> set (hotkeyParts asciiStrings s). isASCII t"
    using piece isASCII_ToLower isASCII_subset[OF _ TrimSpace_subset]
    by (auto simp: hotkeyParts_def)
qed

lemma keyCode_onASCII:
  assumes "onASCII lib" and "isASCII t"
  shows "keyCode lib t = keyCode asciiStrings t"
proof -
  have h: "ToUpper lib t = ToUpper asciiStrings t" using assms unfolding onASCII_def by blast
  show ?thesis unfolding keyCode_def h by (rule refl)
qed

lemma parseHotkey_onASCII:
  assumes "onASCII lib" and "isASCII s"
  shows "parseHotkey lib s = parseHotkey asciiStrings s"
proof -
  have "isASCII (last (hotkeyParts asciiStrings s))"
    using hotkeyParts_onASCII(2)[OF assms] hotkeyParts_nonempty[of asciiStrings s] by simp
  then show ?thesis
    using hotkeyParts_onASCII(1)[OF assms] keyCode_onASCII[OF assms(1)]
    by (simp add: parseHotkey_def)
qed

subsection \<open>Which tokens are keys\<close>

lemma digitsVal_nonneg: "0 \<le> a \<Longrightarrow> list_all isDigit ds \<Longrightarrow> 0 \<le> digitsVal a ds"
  by (induction ds arbitrary: a) (auto simp: isDigit_def)

lemma functionKey_iff: "(\<exists>v. functionKey t = Some v) \<longleftrightarrow> paddedFunctionKey t"
proof (cases t)
  case Nil
  then show ?thesis by (simp add: functionKey_def paddedFunctionKey_def)
next
  case t: (Cons c ds)
  show ?thesis
  proof (cases ds)
    case Nil
    with t show ?thesis by (simp add: functionKey_def paddedFunctionKey_def Atoi_def)
  next
    case ds: (Cons d ds')
    show ?thesis
    proof (cases "d = CHR ''-''")
      case True
      then show ?thesis using t ds digitsVal_nonneg[of 0 ds']
        by (auto simp: functionKey_def paddedFunctionKey_def Atoi_def Let_def isDigit_def byte_def
                 split: option.splits)
    next
      case False
      then show ?thesis using t ds
        by (auto simp: functionKey_def paddedFunctionKey_def Atoi_def Let_def split: option.splits)
    qed
  qed
qed

lemma functionKeyNames_padded: "List.member functionKeyNames t \<Longrightarrow> paddedFunctionKey t"
  by (auto simp: functionKeyNames_def paddedFunctionKey_def isDigit_def byte_def)

lemma numpadKey_iff: "(\<exists>v. numpadKey t = Some v) \<longleftrightarrow> List.member numpadNames t"
  by (simp add: numpadKey_def numpadNames_def)

lemma named_iff:
  "(t = ''esc'' \<or> t = ''escape'' \<or> t = ''space'' \<or> t = ''enter'' \<or> t = ''return'' \<or>
    (\<exists>v. map_of named t = Some v)) \<longleftrightarrow> List.member namedKeyNames t"
  by (auto simp: named_def namedKeyNames_def split: if_splits)

lemma keyCode_iff:
  "(\<exists>v. keyCode lib t = Some v) \<longleftrightarrow> knownKey t \<or> paddedFunctionKey t \<or> length t = 1"
proof -
  have one: "singleLetter t \<or> singleDigit t \<Longrightarrow> length t = 1"
    by (auto simp: singleLetter_def singleDigit_def split: list.splits)
  have k: "(\<exists>v. keyCode lib t = Some v) \<longleftrightarrow>
        length t = 1 \<or>
        (t = ''esc'' \<or> t = ''escape'' \<or> t = ''space'' \<or> t = ''enter'' \<or> t = ''return'' \<or>
         (\<exists>v. map_of named t = Some v)) \<or>
        (\<exists>v. functionKey t = Some v) \<or> (\<exists>v. numpadKey t = Some v)"
    by (auto simp: keyCode_def Let_def split: option.splits if_splits)
  show ?thesis
    unfolding k named_iff numpadKey_iff functionKey_iff knownKey_def
    using one functionKeyNames_padded by blast
qed

lemma parseHotkey_ok_iff:
  "(\<exists>r. parseHotkey lib s = Inr r) \<longleftrightarrow> s \<noteq> [] \<and> (\<exists>v. keyCode lib (keyTokenOf lib s) = Some v)"
  by (auto simp: parseHotkey_def Let_def keyTokenOf_def split: option.splits)

lemma modifierBit_unrecognised: "\<not> recognisedModifier p \<Longrightarrow> modifierBit p = 0"
  by (simp add: recognisedModifier_def modifierBit_def)

lemma modifierLoop_filter: "modifierLoop m ps = modifierLoop m (filter recognisedModifier ps)"
  by (induction ps arbitrary: m) (auto simp: modifierBit_unrecognised)

lemma onASCII_asciiStrings: "onASCII asciiStrings"
  by (simp add: onASCII_def)

subsection \<open>The claims about the parser\<close>

text \<open>
  C5. The four scenarios of the parser, for every library that is \<open>asciiStrings\<close> on ASCII
  text: \<open>alt+q\<close> gives the Alt bit (\<open>0x0001\<close>) and the code of \<open>Q\<close> (\<open>0x51\<close>); \<open>ctrl+numpad1\<close>
  gives the Ctrl bit (\<open>0x0002\<close>) and \<open>VK_NUMPAD1 = 0x61\<close>; the empty spec and \<open>numpad+\<close>
  (whose final token is empty) are errors.
\<close>

theorem parseHotkey_scenarios:
  assumes "onASCII lib"
  shows "parseHotkey lib ''alt+q'' = Inr (0x0001, 0x51) \<and>
         parseHotkey lib ''ctrl+numpad1'' = Inr (0x0002, VK_NUMPAD1) \<and> VK_NUMPAD1 = 0x61 \<and>
         parseHotkey lib [] = Inl EmptyKey \<and>
         parseHotkey lib ''numpad+'' = Inl (UnsupportedKeyToken ''numpad+'')"
proof -
  have "parseHotkey asciiStrings ''alt+q'' = Inr (0x0001, 0x51)" by code_simp
  moreover have "isASCII ''alt+q''" by code_simp
  moreover have "parseHotkey asciiStrings ''ctrl+numpad1'' = Inr (0x0002, VK_NUMPAD1)" by code_simp
  moreover have "isASCII ''ctrl+numpad1''" by code_simp
  moreover have "VK_NUMPAD1 = 0x61" by (simp add: VK_NUMPAD1_def)
  moreover have "parseHotkey lib [] = Inl EmptyKey" by (simp add: parseHotkey_def)
  moreover have "parseHotkey asciiStrings ''numpad+'' = Inl (UnsupportedKeyToken ''numpad+'')"
    by code_simp
  moreover have "isASCII ''numpad+''" by code_simp
  ultimately show ?thesis using parseHotkey_onASCII[OF assms] by simp
qed

theorem parseHotkey_scenarios_witness:
  "parseHotkey asciiStrings ''alt+q'' = Inr (0x0001, 0x51) \<and>
   parseHotkey asciiStrings ''ctrl+numpad1'' = Inr (0x0002, 0x61) \<and>
   parseHotkey asciiStrings [] = Inl EmptyKey \<and>
   parseHotkey asciiStrings ''numpad+'' = Inl (UnsupportedKeyToken ''numpad+'')"
  using parseHotkey_scenarios[OF onASCII_asciiStrings] by simp

text \<open>
  The specs \<open>parseHotkey\<close> accepts, as the code is written: the input is not empty and
  its final token (lower-cased and trimmed) is a key of the tables, or \<open>f\<close> followed by
  a number of value 1 to 24 as \<open>strconv.Atoi\<close> reads it, or a token of exactly one byte,
  whatever the byte, through the last branch of the function.
\<close>

lemma parseHotkey_accepts_iff:
  "(\<exists>r. parseHotkey lib s = Inr r) \<longleftrightarrow>
     s \<noteq> [] \<and>
     (knownKey (keyTokenOf lib s) \<or> paddedFunctionKey (keyTokenOf lib s) \<or>
      length (keyTokenOf lib s) = 1)"
  unfolding parseHotkey_ok_iff keyCode_iff ..

text \<open>
  C6 fails on the code. The spec \<open>ctrl+-\<close> has the final token \<open>-\<close>, a single character
  that is neither a letter nor a digit nor any other key the contract lists, and
  \<open>parseHotkey\<close> does not return an error: the last branch, which the code means for a
  single letter, takes any token of one byte and returns the byte as the key code. The
  result is the modifier Ctrl with the code \<open>0x2D\<close>, which is \<open>VK_INSERT\<close>: the same
  hotkey as \<open>ctrl+insert\<close>.
\<close>

theorem parseHotkey_accepts_minus:
  "parseHotkey asciiStrings ''ctrl+-'' = Inr (0x0002, 0x2D) \<and>
   parseHotkey asciiStrings ''ctrl+insert'' = Inr (0x0002, 0x2D) \<and>
   keyTokenOf asciiStrings ''ctrl+-'' = ''-'' \<and> \<not> knownKey ''-''"
  by code_simp

text \<open>
  C9. For every non-empty input the result is decided by the final token alone, and the
  mask is built from the recognised modifier names among the tokens before it: a token
  that is none of \<open>alt\<close>, \<open>menu\<close>, \<open>ctrl\<close>, \<open>control\<close>, \<open>shift\<close>, \<open>win\<close>, \<open>meta\<close>, \<open>super\<close> can be
  filtered out without changing the mask, and no such token produces an error. So
  \<open>ctl+q\<close> parses to the key \<open>Q\<close> with an empty mask.
\<close>

theorem parseHotkey_drops_unrecognised_modifiers:
  assumes "s \<noteq> []"
  shows "parseHotkey lib s =
           (case keyCode lib (keyTokenOf lib s) of
              Some vk \<Rightarrow>
                Inr (modifierLoop 0 (filter recognisedModifier (butlast (hotkeyParts lib s))), vk)
            | None \<Rightarrow> Inl (UnsupportedKeyToken s))"
proof -
  have "length (hotkeyParts lib s) = 1 \<Longrightarrow> butlast (hotkeyParts lib s) = []"
    by (cases "hotkeyParts lib s") auto
  then show ?thesis using assms modifierLoop_filter[of 0 "butlast (hotkeyParts lib s)"]
    by (auto simp: parseHotkey_def Let_def keyTokenOf_def split: option.splits)
qed

theorem parseHotkey_drops_unrecognised_modifiers_witness:
  "parseHotkey asciiStrings ''ctl+q'' = Inr (0, 0x51) \<and>
   parseHotkey asciiStrings ''ctl+shift+q'' = Inr (0x0004, 0x51)"
proof -
  have "keyCode asciiStrings (keyTokenOf asciiStrings ''ctl+q'') = Some 0x51" by code_simp
  moreover have "filter recognisedModifier (butlast (hotkeyParts asciiStrings ''ctl+q'')) = []"
    by code_simp
  moreover have "keyCode asciiStrings (keyTokenOf asciiStrings ''ctl+shift+q'') = Some 0x51"
    by code_simp
  moreover have
    "filter recognisedModifier (butlast (hotkeyParts asciiStrings ''ctl+shift+q'')) = [''shift'']"
    by code_simp
  moreover have "modifierLoop 0 [''shift''] = 0x0004" by code_simp
  ultimately show ?thesis
    using parseHotkey_drops_unrecognised_modifiers[of "''ctl+q''" asciiStrings]
      parseHotkey_drops_unrecognised_modifiers[of "''ctl+shift+q''" asciiStrings]
    by simp
qed

section \<open>JSON text extraction\<close>

lemma HasPrefix_bracket: "HasPrefix rest ''['' \<Longrightarrow> \<exists>r. rest = CHR ''['' # r"
  by (cases rest) (auto simp: HasPrefix_def)

lemma parseIndexes_no_panic: "parseIndexes token rest idxs \<noteq> Panic"
proof (induction token rest idxs rule: parseIndexes.induct)
  case (1 token rest idxs)
  show ?case
  proof (cases "0 < length rest \<and> HasPrefix rest ''['' \<and> Index rest (CHR '']'') \<noteq> - 1")
    case False
    then show ?thesis by (subst parseIndexes.simps) (auto simp: Let_def)
  next
    case True
    define closePos where "closePos = Index rest (CHR '']'')"
    from True obtain r where r: "rest = CHR ''['' # r" using HasPrefix_bracket by blast
    have range: "- 1 \<le> closePos \<and> closePos < int (length rest)"
      unfolding closePos_def by (rule Index_range)
    have pos: "1 \<le> closePos"
      using True r range unfolding closePos_def by (auto simp: Let_def split: if_splits)
    obtain numStr where numStr: "slice rest 1 closePos = Return numStr"
      using pos range by (auto simp: slice_def)
    obtain rest' where rest': "slice rest (closePos + 1) (int (length rest)) = Return rest'"
      using pos range by (auto simp: slice_def)
    show ?thesis
    proof (cases "numStr = []")
      case e: True
      with True numStr show ?thesis
        by (subst parseIndexes.simps) (simp add: Let_def closePos_def[symmetric])
    next
      case ne: False
      show ?thesis
      proof (cases "Atoi numStr")
        case None
        with True numStr ne show ?thesis
          by (subst parseIndexes.simps) (simp add: Let_def closePos_def[symmetric])
      next
        case (Some n)
        have "parseIndexes token rest' (idxs @ [n]) \<noteq> Panic"
          using "1.IH"[of closePos numStr n rest'] True numStr ne Some rest'
          by (simp add: closePos_def)
        with True numStr ne Some rest' show ?thesis
          by (subst parseIndexes.simps) (simp add: Let_def closePos_def[symmetric])
      qed
    qed
  qed
qed

lemma ParseKeyAndIndexes_no_panic: "ParseKeyAndIndexes token \<noteq> Panic"
proof -
  have r: "- 1 \<le> Index token (CHR ''['') \<and> Index token (CHR ''['') < int (length token)"
    by (rule Index_range)
  then have "\<exists>key. slice token 0 (Index token (CHR ''['')) = Return key"
    if "Index token (CHR ''['') \<noteq> - 1"
    using that by (auto simp: slice_def)
  moreover have "\<exists>rest. slice token (Index token (CHR ''['')) (int (length token)) = Return rest"
    if "Index token (CHR ''['') \<noteq> - 1"
    using that r by (auto simp: slice_def)
  ultimately show ?thesis using parseIndexes_no_panic
    by (auto simp: ParseKeyAndIndexes_def Let_def split: go.splits sum.splits)
qed

lemma follow_Idx:
  "follow cur (Idx i) =
     (case cur of JArray arr \<Rightarrow> if i < 0 \<or> int (length arr) \<le> i then None else Some (arr ! nat i)
      | _ \<Rightarrow> None)"
  by (cases cur) auto

lemma follow_Key: "follow cur (Key k) = (case cur of JObject m \<Rightarrow> map_of m k | _ \<Rightarrow> None)"
  by (cases cur) auto

lemma indexLoop_followAll: "indexLoop cur idxs = Return (followAll cur (map Idx idxs))"
  by (induction idxs arbitrary: cur) (auto simp: follow_Idx at_def split: json.splits)

lemma followAll_append:
  "followAll cur (ss @ ts) = (case followAll cur ss of None \<Rightarrow> None | Some c \<Rightarrow> followAll c ts)"
  by (induction ss arbitrary: cur) (auto split: option.splits)

lemma partLoop_pathSteps:
  "partLoop cur parts = Return (case pathSteps parts of None \<Rightarrow> None | Some ss \<Rightarrow> followAll cur ss)"
proof (induction parts arbitrary: cur)
  case Nil
  show ?case by simp
next
  case (Cons part parts)
  show ?case
  proof (cases "ParseKeyAndIndexes part")
    case Panic
    then show ?thesis using ParseKeyAndIndexes_no_panic by blast
  next
    case (Return r)
    show ?thesis
    proof (cases r)
      case (Inl e)
      with Return show ?thesis by (simp add: segmentSteps_def)
    next
      case (Inr ki)
      obtain key idxs where ki: "ki = (key, idxs)" by (cases ki)
      have seg: "segmentSteps part = Some ((if key = [] then [] else [Key key]) @ map Idx idxs)"
        using Return Inr ki by (simp add: segmentSteps_def)
      show ?thesis
        using Return Inr ki seg Cons.IH
        by (auto simp: indexLoop_followAll followAll_append follow_Key
                 split: option.splits json.splits)
    qed
  qed
qed

lemma leafText_primitiveText:
  "leafText f v = (case primitiveText f v of None \<Rightarrow> ([], False) | Some s \<Rightarrow> (s, True))"
  by (cases v) (auto simp: leafText_def primitiveText_def)

lemma ExtractByPath_lookupPath:
  "ExtractByPath f root path =
     Return (case lookupPath f root path of None \<Rightarrow> ([], False) | Some v \<Rightarrow> (v, True))"
  by (auto simp: ExtractByPath_def lookupPath_def partLoop_pathSteps leafText_primitiveText
           split: option.splits)

text \<open>
  C10. \<open>ExtractByPath\<close> always returns, for every value and every path, and never panics:
  it returns the text and \<open>true\<close> when the path leads to a string, a number or a boolean,
  and \<open>("", false)\<close> in every other case, that is when the path is empty, a segment is
  malformed, a key is absent or asked of a value that is no object, an index is negative,
  out of range or asked of a value that is no array, or the value reached is not
  primitive. \<open>ExtractTextFromResponse\<close> always returns too, and returns \<open>""\<close> whenever
  \<open>json.Unmarshal\<close> reports an error.
\<close>

theorem ExtractByPath_total:
  "ExtractByPath f root path =
     Return (case lookupPath f root path of None \<Rightarrow> ([], False) | Some v \<Rightarrow> (v, True)) \<and>
   (\<exists>t. ExtractTextFromResponse Unmarshal f body textPath = Return t) \<and>
   (Unmarshal body = None \<longrightarrow> ExtractTextFromResponse Unmarshal f body textPath = Return [])"
proof -
  have "\<exists>t. ExtractTextFromResponse Unmarshal f body textPath = Return t"
    by (auto simp: ExtractTextFromResponse_def ExtractByPath_lookupPath
             split: option.splits json.splits)
  moreover have "Unmarshal body = None \<longrightarrow>
      ExtractTextFromResponse Unmarshal f body textPath = Return []"
    by (simp add: ExtractTextFromResponse_def)
  ultimately show ?thesis using ExtractByPath_lookupPath by blast
qed

theorem ExtractByPath_total_witness:
  "ExtractByPath (\<lambda>n. ''0'') testRoot ''data.items[1].value'' = Return (''b'', True) \<and>
   ExtractByPath (\<lambda>n. ''0'') testRoot ''data.items[99].value'' = Return ([], False) \<and>
   ExtractByPath (\<lambda>n. ''0'') testRoot ''data.items[-1]'' = Return ([], False) \<and>
   ExtractByPath (\<lambda>n. ''0'') testRoot ''text.value'' = Return ([], False) \<and>
   ExtractByPath (\<lambda>n. ''0'') testRoot ''data.items[1'' = Return ([], False) \<and>
   ExtractByPath (\<lambda>n. ''0'') testRoot ''data.items'' = Return ([], False) \<and>
   ExtractTextFromResponse (\<lambda>b. None :: nat json option) (\<lambda>n. ''0'') ''{'' ''text'' = Return []"
proof -
  have "lookupPath (\<lambda>n. ''0'') testRoot ''data.items[1].value'' = Some ''b''" by code_simp
  moreover have "lookupPath (\<lambda>n. ''0'') testRoot ''data.items[99].value'' = None" by code_simp
  moreover have "lookupPath (\<lambda>n. ''0'') testRoot ''data.items[-1]'' = None" by code_simp
  moreover have "lookupPath (\<lambda>n. ''0'') testRoot ''text.value'' = None" by code_simp
  moreover have "lookupPath (\<lambda>n. ''0'') testRoot ''data.items[1'' = None" by code_simp
  moreover have "lookupPath (\<lambda>n. ''0'') testRoot ''data.items'' = None" by code_simp
  ultimately show ?thesis
    using ExtractByPath_total[of "\<lambda>n. ''0''" testRoot "''data.items[1].value''" "\<lambda>b. None" "''{''" "''text''"]
      ExtractByPath_total[of "\<lambda>n. ''0''" testRoot "''data.items[99].value''" "\<lambda>b. None" "''{''" "''text''"]
      ExtractByPath_total[of "\<lambda>n. ''0''" testRoot "''data.items[-1]''" "\<lambda>b. None" "''{''" "''text''"]
      ExtractByPath_total[of "\<lambda>n. ''0''" testRoot "''text.value''" "\<lambda>b. None" "''{''" "''text''"]
      ExtractByPath_total[of "\<lambda>n. ''0''" testRoot "''data.items[1''" "\<lambda>b. None" "''{''" "''text''"]
      ExtractByPath_total[of "\<lambda>n. ''0''" testRoot "''data.items''" "\<lambda>b. None" "''{''" "''text''"]
    by simp
qed

section \<open>The low-level keyboard hook\<close>

lemma callback_injected: "injected ev \<Longrightarrow> callback lookup sw ev = (CallNext, None, sw)"
  by (simp add: callback_def injected_def Let_def)

lemma callback_swallowed_down:
  assumes "callback lookup sw ev = (Swallow, Some cmd, sw')"
  shows "isSwallowed sw' (vkCode (lParam ev))"
  using assms
  by (auto simp: callback_def Let_def isSwallowed_def split: if_splits option.splits)

lemma callback_keeps_marker:
  assumes "isSwallowed sw vk"
    and "\<not> (handled ev \<and> keyUp ev \<and> vkCode (lParam ev) = vk)"
  shows "isSwallowed (snd (snd (callback lookup sw ev))) vk"
  using assms
  by (auto simp: callback_def Let_def isSwallowed_def handled_def injected_def keyUp_def
           split: if_splits option.splits)

lemma hookRun_keeps_marker:
  assumes "isSwallowed sw vk"
    and "\<forall>e \<in> set evs. \<not> (handled e \<and> keyUp e \<and> vkCode (lParam e) = vk)"
  shows "isSwallowed (snd (hookRun lookup sw evs)) vk"
  using assms
proof (induction evs arbitrary: sw)
  case Nil
  then show ?case by simp
next
  case (Cons e evs)
  obtain d cmd sw' where cb: "callback lookup sw e = (d, cmd, sw')"
    by (cases "callback lookup sw e") auto
  have "isSwallowed sw' vk"
    using callback_keeps_marker[of sw vk e lookup] Cons.prems cb by simp
  then have "isSwallowed (snd (hookRun lookup sw' evs)) vk"
    using Cons.IH Cons.prems by simp
  then show ?case using cb by (auto split: prod.splits)
qed

lemma callback_key_up:
  assumes "handled ev" and "keyUp ev" and "isSwallowed sw (vkCode (lParam ev))"
  shows "callback lookup sw ev = (Swallow, None, sw(vkCode (lParam ev) := None))"
  using assms
  by (auto simp: callback_def Let_def handled_def injected_def keyUp_def
                 WM_KEYUP_def WM_SYSKEYUP_def WM_KEYDOWN_def WM_SYSKEYDOWN_def)

text \<open>
  C7. An event carrying the injected flag is always forwarded, dispatches nothing and
  leaves the markers as they are: it is never swallowed and never matched against the
  hotkeys. Whenever a key-down for \<open>vk\<close> is swallowed and dispatched, the next key-up
  for \<open>vk\<close> among the events the hook handles (\<open>nCode\<close> not negative, and not injected,
  since an injected event is forwarded as it is) is consumed and clears the marker of
  \<open>vk\<close>, whatever other events come in between.
\<close>

theorem hook_swallows_matching_key_up:
  "(injected ev \<longrightarrow> callback lookup sw ev = (CallNext, None, sw)) \<and>
   (callback lookup sw0 down = (Swallow, Some cmd, sw1) \<and>
    (\<forall>e \<in> set mid. \<not> (handled e \<and> keyUp e \<and> vkCode (lParam e) = vkCode (lParam down))) \<and>
    handled up \<and> keyUp up \<and> vkCode (lParam up) = vkCode (lParam down) \<longrightarrow>
      callback lookup (snd (hookRun lookup sw1 mid)) up =
        (Swallow, None, (snd (hookRun lookup sw1 mid))(vkCode (lParam down) := None)))"
proof (intro conjI impI)
  assume "injected ev"
  then show "callback lookup sw ev = (CallNext, None, sw)" by (rule callback_injected)
next
  assume a: "callback lookup sw0 down = (Swallow, Some cmd, sw1) \<and>
    (\<forall>e \<in> set mid. \<not> (handled e \<and> keyUp e \<and> vkCode (lParam e) = vkCode (lParam down))) \<and>
    handled up \<and> keyUp up \<and> vkCode (lParam up) = vkCode (lParam down)"
  then have "isSwallowed sw1 (vkCode (lParam down))"
    using callback_swallowed_down by blast
  then have "isSwallowed (snd (hookRun lookup sw1 mid)) (vkCode (lParam down))"
    using a hookRun_keeps_marker by blast
  then show "callback lookup (snd (hookRun lookup sw1 mid)) up =
        (Swallow, None, (snd (hookRun lookup sw1 mid))(vkCode (lParam down) := None))"
    using a callback_key_up[of up "snd (hookRun lookup sw1 mid)" lookup] by simp
qed

theorem hook_swallows_matching_key_up_witness:
  "callback altQ Map.empty (keyEvent WM_SYSKEYUP 0x51 LLKHF_INJECTED [VK_MENU]) =
     (CallNext, None, Map.empty) \<and>
   callback altQ Map.empty (keyEvent WM_SYSKEYDOWN 0x51 0 [VK_MENU]) =
     (Swallow, Some 1, [0x51 \<mapsto> True]) \<and>
   fst (callback altQ
          (snd (hookRun altQ [0x51 \<mapsto> True]
                  [keyEvent WM_SYSKEYUP 0x51 LLKHF_INJECTED [VK_MENU],
                   keyEvent WM_KEYDOWN 0x41 0 []]))
          (keyEvent WM_KEYUP 0x51 0 [])) = Swallow"
proof -
  let ?inj = "keyEvent WM_SYSKEYUP 0x51 LLKHF_INJECTED [VK_MENU]"
  let ?down = "keyEvent WM_SYSKEYDOWN 0x51 0 [VK_MENU]"
  let ?other = "keyEvent WM_KEYDOWN 0x41 0 []"
  let ?up = "keyEvent WM_KEYUP 0x51 0 []"
  have inj: "injected ?inj"
    by (simp add: injected_def keyEvent_def LLKHF_INJECTED_def)
  have down: "callback altQ Map.empty ?down = (Swallow, Some 1, [0x51 \<mapsto> True])"
    by (simp add: callback_def altQ_def keyEvent_def Let_def modsSatisfied_def
          WM_KEYDOWN_def WM_SYSKEYDOWN_def LLKHF_INJECTED_def VK_MENU_def)
  have mid: "\<forall>e \<in> set [?inj, ?other].
      \<not> (handled e \<and> keyUp e \<and> vkCode (lParam e) = vkCode (lParam ?down))"
    by (simp add: handled_def injected_def keyUp_def keyEvent_def LLKHF_INJECTED_def
          WM_KEYUP_def WM_SYSKEYUP_def WM_KEYDOWN_def)
  have up: "handled ?up \<and> keyUp ?up \<and> vkCode (lParam ?up) = vkCode (lParam ?down)"
    by (simp add: handled_def injected_def keyUp_def keyEvent_def LLKHF_INJECTED_def
          WM_KEYUP_def)
  show ?thesis
    using hook_swallows_matching_key_up[of ?inj altQ Map.empty Map.empty ?down 1
        "[0x51 \<mapsto> True]" "[?inj, ?other]" ?up] inj down mid up
    by simp
qed

lemma buildLookup_altQ: "buildLookup asciiStrings Map.empty [(1, ''alt+q'')] = Inr altQ"
proof -
  have "parseHotkey asciiStrings ''alt+q'' = Inr (0x0001, 0x51)" by code_simp
  then show ?thesis by (simp add: altQ_def)
qed

section \<open>The recorder\<close>

subsection \<open>One step of a goroutine\<close>


lemma recordLoop_Exited: "pc w = Exited \<Longrightarrow> recordLoop e w r = (w, r)"
  by (simp add: recordLoop_def)



lemma recordLoop_workers: "workers (snd (recordLoop e w r)) = workers r"
  by (cases "pc w") (simp_all add: recordLoop_def Let_def finish_def)







lemma workerStep_eq:
  "i < length (workers r) \<Longrightarrow>
     workerStep i e r =
       (snd (recordLoop e (workers r ! i) r))
         \<lparr>workers := (workers r)[i := fst (recordLoop e (workers r ! i) r)]\<rparr>"
  using recordLoop_workers[of e "workers r ! i" r]
  by (cases "recordLoop e (workers r ! i) r") (simp add: workerStep_def)


lemma workerStep_Exited:
  "i < length (workers r) \<Longrightarrow> pc (workers r ! i) = Exited \<Longrightarrow> workerStep i e r = r"
  by (simp add: workerStep_eq recordLoop_Exited)


















subsection \<open>Waiting for the result\<close>


lemma await_waiting: "doneCh r = None \<Longrightarrow> await ((i, e) # sched) r = await sched (workerStep i e r)"
  by simp

lemma await_nothing: "doneCh r = None \<Longrightarrow> await [] r = (None, r)"
  by simp






subsection \<open>The claims about the state machine\<close>




text \<open>
  C2. A request outside its precondition returns an error and the system is the same
  after the call as before: no field of the recorder has changed, the list of goroutines
  is the same, the context has not been cancelled and no goroutine has taken a step.
  \<open>Start\<close> is rejected in every state but idle; \<open>Stop\<close>, \<open>Cancel\<close> and \<open>TogglePause\<close> are
  rejected in every state but recording and paused.
\<close>

theorem rejected_requests_change_nothing:
  "(state r \<noteq> StateIdle \<longrightarrow> Start r = (Some ''recorder not idle'', r)) \<and>
   (state r \<noteq> StateRecording \<and> state r \<noteq> StatePaused \<longrightarrow>
      Stop sched r = (Some (emptyResult, Some ''recorder not running''), r) \<and>
      Cancel sched r = (Some (emptyResult, Some ''recorder not running''), r) \<and>
      TogglePause r = (Some ''recorder not running'', r))"
  by (simp add: Start_def Stop_def Cancel_def TogglePause_def)

theorem rejected_requests_change_nothing_witness:
  "Start (snd (Start (New ''tmp''))) = (Some ''recorder not idle'', snd (Start (New ''tmp''))) \<and>
   Stop [(0, allOk)] (New ''tmp'') = (Some (emptyResult, Some ''recorder not running''), New ''tmp'') \<and>
   Cancel [(0, allOk)] (New ''tmp'') = (Some (emptyResult, Some ''recorder not running''), New ''tmp'') \<and>
   TogglePause (New ''tmp'') = (Some ''recorder not running'', New ''tmp'')"
proof -
  have "state (snd (Start (New ''tmp''))) = StateRecording" by (simp add: Start_def New_def)
  moreover have "state (New ''tmp'') = StateIdle" by (simp add: New_def)
  ultimately show ?thesis
    using rejected_requests_change_nothing[of "snd (Start (New ''tmp''))" "[]"]
      rejected_requests_change_nothing[of "New ''tmp''" "[(0, allOk)]"]
    by simp
qed



subsection \<open>The result of a session\<close>








subsection \<open>Failures in the middle of a recording\<close>



end
